theory Spec2Isabelle
  imports Complex_Main
begin

section \<open>The uroflowmetry acquisition engine of \<^verbatim>\<open>GUI_V11.py\<close>\<close>

text \<open>
  The theory embeds the acquisition and session part of the class
  \<^verbatim>\<open>UroflowmetryApp\<close>: the serial port, the three plot series, the running
  flag, the session clock, the periodic \<^verbatim>\<open>update_plot\<close> callback, the button
  handlers \<^verbatim>\<open>start_action\<close>, \<^verbatim>\<open>stop_action\<close>, \<^verbatim>\<open>clear_action\<close> and the
  \<^verbatim>\<open>submit\<close> handler of \<^verbatim>\<open>save_data\<close> with \<^verbatim>\<open>generate_pdf\<close> and
  \<^verbatim>\<open>save_plots\<close>. Mutation of \<^verbatim>\<open>self\<close> is explicit state passing. A handler
  that can raise returns the exception that leaves it (if any) together with
  the state as it is at that moment, because Python keeps every assignment made
  before the raise.
\<close>

subsection \<open>Bytes, text and the Python string methods used on a line\<close>

type_synonym bytes = "char list"

text \<open>
  \<^verbatim>\<open>str.isspace\<close> for the code points below 256: the ASCII white space
  (9 to 13 and 32), the separators 28 to 31, NEL (133) and the no-break
  space (160).
\<close>

definition isspace :: "char \<Rightarrow> bool" where
  "isspace c = ((of_char c :: nat) \<in> {9, 10, 11, 12, 13, 28, 29, 30, 31, 32, 133, 160})"

text \<open>\<^verbatim>\<open>s.strip()\<close>: white space removed at both ends.\<close>

definition strip :: "string \<Rightarrow> string" where
  "strip s = rev (dropWhile isspace (rev (dropWhile isspace s)))"

text \<open>
  \<^verbatim>\<open>s.split(sep)\<close> for a one-character separator: the fields between the
  separators, so the result has one more element than \<^verbatim>\<open>s\<close> has separators
  and is never empty.
\<close>

fun split_sep :: "char \<Rightarrow> string \<Rightarrow> string list" where
  "split_sep sep [] = [[]]"
| "split_sep sep (c # cs) =
     (if c = sep then [] # split_sep sep cs
      else (c # hd (split_sep sep cs)) # tl (split_sep sep cs))"

subsection \<open>Exceptions and log records\<close>

text \<open>
  The exceptions the modelled statements can raise. The text of \<^verbatim>\<open>str(e)\<close>
  is not modelled: a log record keeps the prefix the code writes and the
  exception it formats. \<open>OSError_write\<close> is the failure to create a file
  of that name, \<open>ValueError_markup\<close> the rejection of a paragraph text by the
  report library, \<open>OverflowError_sqlite\<close> the rejection of an integer that
  does not fit a database INTEGER.
\<close>

datatype exn =
    UnicodeDecodeError bytes
  | ValueError_float string
  | ValueError_required
  | ValueError_shape nat nat
  | AttributeError_start_time
  | PortNotOpenError
  | OSError_missing string
  | OSError_write string
  | ValueError_markup string
  | OverflowError_sqlite

type_synonym log_record = "string \<times> exn"


subsection \<open>The serial port\<close>

text \<open>
  A \<^verbatim>\<open>serial.Serial\<close> object as the code uses it: the flag \<^verbatim>\<open>is_open\<close>, the
  input buffer as the lines that successive \<^verbatim>\<open>readline()\<close> calls return, and
  the bytes written to the device so far.
\<close>

record serial =
  is_open :: bool
  rx_lines :: "bytes list"
  tx :: bytes

definition in_waiting :: "serial \<Rightarrow> nat" where
  "in_waiting p = length (concat (rx_lines p))"

definition readline :: "serial \<Rightarrow> bytes \<times> serial" where
  "readline p =
     (case rx_lines p of
        [] \<Rightarrow> ([], p)
      | l # ls \<Rightarrow> (l, p\<lparr>rx_lines := ls\<rparr>))"

text \<open>\<^verbatim>\<open>Serial.write\<close> raises \<^verbatim>\<open>PortNotOpenError\<close> on a port that is not open.\<close>

definition serial_write :: "bytes \<Rightarrow> serial \<Rightarrow> exn + serial" where
  "serial_write bs p =
     (if is_open p then Inr (p\<lparr>tx := tx p @ bs\<rparr>) else Inl PortNotOpenError)"

subsection \<open>Images, reports and the patient form\<close>

text \<open>
  A plot image holds its title and the two series drawn; a report holds the two
  headings, the table and the two images.
\<close>

datatype 'v figure = Figure string "real list" "'v list"

record 'v pdf =
  pdf_hospital :: string
  pdf_address :: string
  pdf_table :: "(string \<times> string) list"
  pdf_flow :: "'v figure"
  pdf_volume :: "'v figure"

datatype 'v file_content = Png "'v figure" | Pdf "'v pdf"

text \<open>The values of the form of \<^verbatim>\<open>save_data\<close>; a text field holds a string.\<close>

type_synonym form_text = string

record form =
  first_name :: string
  last_name :: string
  age_patient :: int
  patient_id_num :: string
  gender_patient :: string
  doctor_first_name :: string
  doctor_last_name :: string
  hospital_name :: string
  hospital_address :: string

text \<open>A row of the table \<^verbatim>\<open>patients\<close>: the values of the form and
  \<^verbatim>\<open>created_at\<close>.\<close>

type_synonym patient_row = "form \<times> string"

subsection \<open>The library functions taken as parameters\<close>

text \<open>
  \<^verbatim>\<open>bytes.decode('utf-8')\<close>, the builtin \<^verbatim>\<open>float\<close>, the database,
  \<^verbatim>\<open>plt.savefig\<close> and the report library are not code of the repository. They
  are parameters of the model. For the first two \<open>None\<close> is the exception
  (\<^verbatim>\<open>UnicodeDecodeError\<close>, \<^verbatim>\<open>ValueError\<close>), and \<open>'v\<close> is the type of the floats
  that \<^verbatim>\<open>float\<close> returns. The other four return the exception they raise,
  if any: \<open>db_insert\<close> is the \<^verbatim>\<open>INSERT\<close> of a row in its connection,
  \<open>savefig\<close> writes an image file of the given name, \<open>mk_paragraph\<close> is
  \<^verbatim>\<open>Paragraph(text, style)\<close>, which parses the markup of the text, and
  \<open>doc_build\<close> is \<^verbatim>\<open>SimpleDocTemplate(filename)\<close> with
  \<^verbatim>\<open>doc.build(elements)\<close>, which lays the elements out and writes the file.
\<close>

record 'v pylib =
  decode_utf8 :: "bytes \<Rightarrow> string option"
  float_of :: "string \<Rightarrow> 'v option"
  db_insert :: "patient_row \<Rightarrow> exn option"
  savefig :: "string \<Rightarrow> exn option"
  mk_paragraph :: "string \<Rightarrow> exn option"
  doc_build :: "string \<Rightarrow> 'v pdf \<Rightarrow> exn option"

subsection \<open>The application state\<close>

text \<open>
  A label shows either a constant text or an f-string with one float
  formatted by \<^verbatim>\<open>:.2f\<close> between a prefix and a suffix.
\<close>

datatype 'v label_text = Text string | Fmt2f string 'v string

datatype dialog = Show_info string string | Show_error string exn

text \<open>
  The fields of \<^verbatim>\<open>self\<close>. \<open>start_time\<close> is \<open>None\<close> until
  \<^verbatim>\<open>initialize_plot_data\<close> first assigns the attribute. \<open>pending\<close> holds the
  delays of the \<^verbatim>\<open>root.after\<close> timers that are armed for \<^verbatim>\<open>update_plot\<close>.
  \<open>log\<close> holds the records of \<^verbatim>\<open>logging.error\<close> (the level is ERROR, so
  \<^verbatim>\<open>logging.info\<close> writes nothing), \<open>stdout\<close> what \<^verbatim>\<open>print\<close> wrote,
  \<open>dialogs\<close> the message boxes shown, \<open>patients\<close> the rows of the
  database table and \<open>files\<close> the files written. \<^verbatim>\<open>canvas.draw()\<close> repaints
  from these fields and changes none of them.
\<close>

record 'v app =
  serial_port :: "serial option"
  x_data :: "real list"
  y1_data :: "'v list"
  y2_data :: "'v list"
  is_running :: bool
  start_time :: "real option"
  line1 :: "real list \<times> 'v list"
  line2 :: "real list \<times> 'v list"
  y1_label :: "'v label_text"
  y2_label :: "'v label_text"
  ax1_xlim :: "real \<times> real"
  ax2_xlim :: "real \<times> real"
  pending :: "nat list"
  log :: "log_record list"
  stdout :: "log_record list"
  dialogs :: "dialog list"
  patients :: "patient_row list"
  files :: "string \<rightharpoonup> 'v file_content"

text \<open>
  \<^verbatim>\<open>__init__\<close>, given the value \<^verbatim>\<open>connect_serial\<close> left in
  \<^verbatim>\<open>self.serial_port\<close> and the rows and files that exist already.
\<close>

definition app_init ::
  "serial option \<Rightarrow> patient_row list \<Rightarrow> (string \<rightharpoonup> 'v file_content) \<Rightarrow> 'v app" where
  "app_init port rows fs =
     \<lparr>serial_port = port,
      x_data = [], y1_data = [], y2_data = [],
      is_running = False,
      start_time = None,
      line1 = ([], []), line2 = ([], []),
      y1_label = Text ''Flowrate: 0 mL/s'',
      y2_label = Text ''Volume: 0 mL'',
      ax1_xlim = (0, 60), ax2_xlim = (0, 60),
      pending = [100],
      log = [], stdout = [], dialogs = [],
      patients = rows,
      files = fs\<rparr>"

text \<open>The guard of \<^verbatim>\<open>update_plot\<close> and \<^verbatim>\<open>close_resources\<close>:
  \<^verbatim>\<open>self.serial_port and self.serial_port.is_open\<close>.\<close>

definition link_open :: "'v app \<Rightarrow> bool" where
  "link_open a = (case serial_port a of None \<Rightarrow> False | Some p \<Rightarrow> is_open p)"

subsection \<open>The acquisition tick\<close>

text \<open>\<^verbatim>\<open>readline().decode('utf-8').strip().split(',')\<close> on the bytes read.\<close>

definition decode_fields :: "'v pylib \<Rightarrow> bytes \<Rightarrow> exn + string list" where
  "decode_fields L raw =
     (case decode_utf8 L raw of
        None \<Rightarrow> Inl (UnicodeDecodeError raw)
      | Some t \<Rightarrow> Inr (split_sep CHR '','' (strip t)))"

text \<open>\<^verbatim>\<open>y1, y2 = map(float, data)\<close> for a list of two fields: the first field
  is converted first, and the first failure is the exception raised.\<close>

definition map_float :: "'v pylib \<Rightarrow> string \<Rightarrow> string \<Rightarrow> exn + ('v \<times> 'v)" where
  "map_float L f1 f2 =
     (case float_of L f1 of
        None \<Rightarrow> Inl (ValueError_float f1)
      | Some y1 \<Rightarrow>
          (case float_of L f2 of
             None \<Rightarrow> Inl (ValueError_float f2)
           | Some y2 \<Rightarrow> Inr (y1, y2)))"

text \<open>The statements that follow the conversion: the three appends, the two
  plot lines, the two labels and the sliding x-axis.\<close>

definition append_sample :: "real \<Rightarrow> 'v \<Rightarrow> 'v \<Rightarrow> 'v app \<Rightarrow> 'v app" where
  "append_sample current_time y1 y2 a =
     (let xs = x_data a @ [current_time];
          y1s = y1_data a @ [y1];
          y2s = y2_data a @ [y2];
          lim1 = (if current_time > 60 then (current_time - 60, current_time) else ax1_xlim a);
          lim2 = (if current_time > 60 then (current_time - 60, current_time) else ax2_xlim a)
      in a\<lparr>x_data := xs, y1_data := y1s, y2_data := y2s,
            line1 := (xs, y1s), line2 := (xs, y2s),
            y1_label := Fmt2f ''Flowrate: '' y1 '' mL/s'',
            y2_label := Fmt2f ''Volume: '' y2 '' mL'',
            ax1_xlim := lim1, ax2_xlim := lim2\<rparr>)"

text \<open>
  The body of the \<^verbatim>\<open>try\<close> block, for the open port \<open>p\<close>; \<open>now\<close> is what
  \<^verbatim>\<open>time.time()\<close> returns in this tick. The line read is gone from the port
  whatever happens to it afterwards.
\<close>

definition update_plot_try :: "'v pylib \<Rightarrow> real \<Rightarrow> serial \<Rightarrow> 'v app \<Rightarrow> exn option \<times> 'v app" where
  "update_plot_try L now p a =
     (if in_waiting p > 0 then
        (let (raw, p') = readline p;
             a1 = a\<lparr>serial_port := Some p'\<rparr>
         in case decode_fields L raw of
              Inl e \<Rightarrow> (Some e, a1)
            | Inr data \<Rightarrow>
                (if length data = 2 then
                   (case map_float L (data ! 0) (data ! 1) of
                      Inl e \<Rightarrow> (Some e, a1)
                    | Inr (y1, y2) \<Rightarrow>
                        (case start_time a1 of
                           None \<Rightarrow> (Some AttributeError_start_time, a1)
                         | Some st \<Rightarrow> (None, append_sample (now - st) y1 y2 a1)))
                 else (None, a1)))
      else (None, a))"

text \<open>\<^verbatim>\<open>except Exception as e\<close>: the exception is logged and printed, and does
  not leave the handler.\<close>

definition plot_update_error :: "exn option \<times> 'v app \<Rightarrow> exn option \<times> 'v app" where
  "plot_update_error r =
     (case r of
        (None, a) \<Rightarrow> (None, a)
      | (Some e, a) \<Rightarrow>
          (None, a\<lparr>log := log a @ [(''Plot Update Error: '', e)],
                    stdout := stdout a @ [(''Plot Update Error: '', e)]\<rparr>))"

text \<open>\<^verbatim>\<open>update_plot\<close>: the guarded \<^verbatim>\<open>try\<close> block, then
  \<^verbatim>\<open>self.root.after(100, self.update_plot)\<close>.\<close>

definition update_plot :: "'v pylib \<Rightarrow> real \<Rightarrow> 'v app \<Rightarrow> exn option \<times> 'v app" where
  "update_plot L now a =
     (let (e, a') =
            (case serial_port a of
               None \<Rightarrow> (None, a)
             | Some p \<Rightarrow>
                 (if is_running a \<and> is_open p
                  then plot_update_error (update_plot_try L now p a)
                  else (None, a)))
      in (e, a'\<lparr>pending := pending a' @ [100]\<rparr>))"

subsection \<open>Start, Stop and Clear\<close>

definition initialize_plot_data :: "real \<Rightarrow> 'v app \<Rightarrow> 'v app" where
  "initialize_plot_data now a =
     a\<lparr>is_running := True,
       start_time := Some now,
       x_data := [], y1_data := [], y2_data := [],
       line1 := ([], []), line2 := ([], [])\<rparr>"

definition start_serial_communication :: "'v app \<Rightarrow> exn option \<times> 'v app" where
  "start_serial_communication a =
     (case serial_port a of
        None \<Rightarrow> (None, a)
      | Some p \<Rightarrow>
          (case serial_write ''A'' p of
             Inl e \<Rightarrow> (Some e, a)
           | Inr p' \<Rightarrow> (None, a\<lparr>serial_port := Some p'\<rparr>)))"

definition start_action :: "real \<Rightarrow> 'v app \<Rightarrow> exn option \<times> 'v app" where
  "start_action now a = start_serial_communication (initialize_plot_data now a)"

definition stop_action :: "'v app \<Rightarrow> 'v app" where
  "stop_action a = a\<lparr>is_running := False\<rparr>"

definition clear_action :: "'v app \<Rightarrow> 'v app" where
  "clear_action a =
     a\<lparr>x_data := [], y1_data := [], y2_data := [],
       line1 := ([], []), line2 := ([], []),
       y1_label := Text ''Flowrate: 0 mL/s'',
       y2_label := Text ''Volume: 0 mL''\<rparr>"

subsection \<open>Saving: \<^verbatim>\<open>submit\<close>, \<^verbatim>\<open>generate_pdf\<close> and \<^verbatim>\<open>save_plots\<close>\<close>

text \<open>\<^verbatim>\<open>plt.plot(x, y)\<close> raises \<^verbatim>\<open>ValueError\<close> when the two series differ in
  length, and draws them otherwise (also when both are empty).\<close>

definition plt_plot :: "real list \<Rightarrow> 'v list \<Rightarrow> exn + (real list \<times> 'v list)" where
  "plt_plot xs ys =
     (if length xs = length ys then Inr (xs, ys)
      else Inl (ValueError_shape (length xs) (length ys)))"

text \<open>\<^verbatim>\<open>plt.savefig(name)\<close> of the figure just plotted: the exception of the
  library, or the image file written.\<close>

definition plt_savefig ::
  "'v pylib \<Rightarrow> string \<Rightarrow> 'v figure \<Rightarrow> 'v app \<Rightarrow> exn option \<times> 'v app" where
  "plt_savefig L name g a =
     (case savefig L name of
        Some e \<Rightarrow> (Some e, a)
      | None \<Rightarrow> (None, a\<lparr>files := (files a)(name \<mapsto> Png g)\<rparr>))"

text \<open>\<^verbatim>\<open>save_plots\<close> has no handler of its own: the flow image is written
  before the volume plot is tried.\<close>

definition save_plots :: "'v pylib \<Rightarrow> string \<Rightarrow> string \<Rightarrow> 'v app \<Rightarrow> exn option \<times> 'v app" where
  "save_plots L flow_filename volume_filename a =
     (case plt_plot (x_data a) (y1_data a) of
        Inl e \<Rightarrow> (Some e, a)
      | Inr (xs, ys) \<Rightarrow>
          (case plt_savefig L flow_filename (Figure ''Flowrate'' xs ys) a of
             (Some e, a1) \<Rightarrow> (Some e, a1)
           | (None, a1) \<Rightarrow>
               (case plt_plot (x_data a1) (y2_data a1) of
                  Inl e \<Rightarrow> (Some e, a1)
                | Inr (xs2, ys2) \<Rightarrow>
                    plt_savefig L volume_filename (Figure ''Volume'' xs2 ys2) a1)))"

text \<open>\<^verbatim>\<open>Image(name, ...)\<close> in the report: the image file is read when the
  document is built.\<close>

definition read_image :: "string \<Rightarrow> 'v app \<Rightarrow> exn + 'v figure" where
  "read_image name a =
     (case files a name of
        Some (Png g) \<Rightarrow> Inr g
      | _ \<Rightarrow> Inl (OSError_missing name))"

definition pdf_error :: "exn \<Rightarrow> 'v app \<Rightarrow> 'v app" where
  "pdf_error e a =
     a\<lparr>log := log a @ [(''PDF Error: '', e)],
       stdout := stdout a @ [(''PDF Error: '', e)]\<rparr>"

text \<open>The content of the report (lines 416 to 448): the two headings, the
  table and the two images.\<close>

definition report_doc ::
  "string \<Rightarrow> form_text \<Rightarrow> form_text \<Rightarrow> form_text \<Rightarrow> form_text \<Rightarrow> form_text \<Rightarrow> form_text
     \<Rightarrow> form_text \<Rightarrow> form_text \<Rightarrow> 'v figure \<Rightarrow> 'v figure \<Rightarrow> 'v pdf" where
  "report_doc date patient_id first last' gender hospital address doctor_first doctor_last
       flow volume =
     \<lparr>pdf_hospital = hospital, pdf_address = address,
      pdf_table =
        [(''Date'', date),
         (''Patient ID'', patient_id),
         (''Name'', first @ '' '' @ last'),
         (''Gender'', gender),
         (''Doctor'', ''Dr. '' @ doctor_first @ '' '' @ doctor_last @ '' Sp. U''),
         (''Volume'', '' mL'')],
      pdf_flow = flow, pdf_volume = volume\<rparr>"

text \<open>
  \<^verbatim>\<open>generate_pdf\<close>; \<open>date\<close> is \<^verbatim>\<open>datetime.now().strftime("%Y-%m-%d %H:%M")\<close>.
  The statements of the \<^verbatim>\<open>try\<close> block that can raise, in their order:
  \<^verbatim>\<open>save_plots\<close>, the paragraph of the hospital name, the paragraph of the
  address (both texts come from the form), the two images, and the build of
  the document under the file name made of the patient's id and names. The two
  section headings are constant texts without markup. The handler logs and
  prints the exception, so the function returns the state only; no report file
  exists after a failure.
\<close>

definition generate_pdf ::
  "'v pylib \<Rightarrow> string \<Rightarrow> form_text \<Rightarrow> form_text \<Rightarrow> form_text \<Rightarrow> form_text \<Rightarrow> form_text
     \<Rightarrow> form_text \<Rightarrow> form_text \<Rightarrow> form_text \<Rightarrow> 'v app \<Rightarrow> 'v app" where
  "generate_pdf L date patient_id first last' gender hospital address doctor_first doctor_last a =
     (case save_plots L ''flow.png'' ''volume.png'' a of
        (Some e, a1) \<Rightarrow> pdf_error e a1
      | (None, a1) \<Rightarrow>
          (let filename = patient_id @ ''_'' @ first @ ''_'' @ last' @ ''.pdf''
           in case mk_paragraph L (''<center>'' @ hospital @ ''</center>'') of
                Some e \<Rightarrow> pdf_error e a1
              | None \<Rightarrow>
                  (case mk_paragraph L (''<center>'' @ address @ ''</center>'') of
                     Some e \<Rightarrow> pdf_error e a1
                   | None \<Rightarrow>
                       (case read_image ''flow.png'' a1 of
                          Inl e \<Rightarrow> pdf_error e a1
                        | Inr flow \<Rightarrow>
                            (case read_image ''volume.png'' a1 of
                               Inl e \<Rightarrow> pdf_error e a1
                             | Inr volume \<Rightarrow>
                                 (let doc = report_doc date patient_id first last' gender
                                              hospital address doctor_first doctor_last
                                              flow volume
                                  in case doc_build L filename doc of
                                       Some e \<Rightarrow> pdf_error e a1
                                     | None \<Rightarrow>
                                         a1\<lparr>files := (files a1)(filename \<mapsto> Pdf doc)\<rparr>))))))"

text \<open>The test \<^verbatim>\<open>first and last and age and ...\<close> of \<^verbatim>\<open>submit\<close>: an empty
  string and the age 0 are false.\<close>

definition form_complete :: "form \<Rightarrow> bool" where
  "form_complete f =
     (first_name f \<noteq> [] \<and> last_name f \<noteq> [] \<and> age_patient f \<noteq> 0 \<and>
      patient_id_num f \<noteq> [] \<and> gender_patient f \<noteq> [] \<and>
      doctor_first_name f \<noteq> [] \<and> doctor_last_name f \<noteq> [] \<and>
      hospital_name f \<noteq> [] \<and> hospital_address f \<noteq> [])"

text \<open>The handler of \<^verbatim>\<open>submit\<close>: the exception is logged and shown in an
  error dialog.\<close>

definition save_error :: "exn \<Rightarrow> 'v app \<Rightarrow> 'v app" where
  "save_error e a =
     a\<lparr>log := log a @ [(''Error saving data: '', e)],
       dialogs := dialogs a @ [Show_error ''Error SAVE DATA: '' e]\<rparr>"

text \<open>
  \<^verbatim>\<open>submit\<close> of \<^verbatim>\<open>save_data\<close>, for the values \<open>f\<close> of the form (the age
  as the integer that \<^verbatim>\<open>IntVar.get\<close> returned); \<open>created_at\<close> and \<open>date\<close>
  are the two \<^verbatim>\<open>datetime.now()\<close> strings. The only test before the row is
  inserted and the report is generated is the one on the form. An exception of
  the insert leaves no row and ends the handler. \<^verbatim>\<open>generate_pdf\<close> swallows
  its exceptions, so the success dialog follows also when no report was
  written. The history view and the form window are not modelled.
\<close>

definition submit :: "'v pylib \<Rightarrow> form \<Rightarrow> string \<Rightarrow> string \<Rightarrow> 'v app \<Rightarrow> 'v app" where
  "submit L f created_at date a =
     (if \<not> form_complete f then save_error ValueError_required a
      else
        (case db_insert L (f, created_at) of
           Some e \<Rightarrow> save_error e a
         | None \<Rightarrow>
             (let a1 = a\<lparr>patients := patients a @ [(f, created_at)]\<rparr>;
                  a2 = generate_pdf L date (patient_id_num f) (first_name f) (last_name f)
                         (gender_patient f) (hospital_name f) (hospital_address f)
                         (doctor_first_name f) (doctor_last_name f) a1
              in a2\<lparr>dialogs := dialogs a2 @ [Show_info ''Success'' ''Data saved and PDF created'']\<rparr>)))"

subsection \<open>The event loop\<close>

text \<open>
  The Tk main loop runs one callback at a time: a button handler, the timer
  callback \<^verbatim>\<open>update_plot\<close> when a timer is armed, or nothing while the device
  delivers a line into the input buffer of the open port. A \<open>Tick\<close> and a
  \<open>Start\<close> carry the reading of \<^verbatim>\<open>time.time()\<close> in that callback. An
  exception that leaves a callback is reported by Tk and the loop goes on with
  the state as it is.
\<close>

datatype event =
    Start real
  | Stop
  | Clear
  | Tick real
  | Arrive bytes
  | Save form string string

definition arrive :: "bytes \<Rightarrow> 'v app \<Rightarrow> 'v app" where
  "arrive raw a =
     (case serial_port a of
        None \<Rightarrow> a
      | Some p \<Rightarrow>
          (if is_open p then a\<lparr>serial_port := Some (p\<lparr>rx_lines := rx_lines p @ [raw]\<rparr>)\<rparr>
           else a))"

definition tick :: "'v pylib \<Rightarrow> real \<Rightarrow> 'v app \<Rightarrow> 'v app" where
  "tick L now a =
     (case pending a of
        [] \<Rightarrow> a
      | d # ds \<Rightarrow> snd (update_plot L now (a\<lparr>pending := ds\<rparr>)))"

fun step :: "'v pylib \<Rightarrow> event \<Rightarrow> 'v app \<Rightarrow> 'v app" where
  "step L (Start now) a = snd (start_action now a)"
| "step L Stop a = stop_action a"
| "step L Clear a = clear_action a"
| "step L (Tick now) a = tick L now a"
| "step L (Arrive raw) a = arrive raw a"
| "step L (Save f created_at date) a = submit L f created_at date a"

fun run :: "'v pylib \<Rightarrow> event list \<Rightarrow> 'v app \<Rightarrow> 'v app" where
  "run L [] a = a"
| "run L (e # es) a = run L es (step L e a)"

fun is_start :: "event \<Rightarrow> bool" where
  "is_start (Start now) = True"
| "is_start e = False"


fun is_tick_or_arrive :: "event \<Rightarrow> bool" where
  "is_tick_or_arrive (Tick now) = True"
| "is_tick_or_arrive (Arrive raw) = True"
| "is_tick_or_arrive e = False"

text \<open>The clock readings of the ticks of an event sequence, in order.\<close>

fun tick_times :: "event list \<Rightarrow> real list" where
  "tick_times [] = []"
| "tick_times (Tick now # es) = now # tick_times es"
| "tick_times (e # es) = tick_times es"

text \<open>The invariant of the sample buffer: the three series have one length.\<close>

definition same_length :: "'v app \<Rightarrow> bool" where
  "same_length a =
     (length (x_data a) = length (y1_data a) \<and> length (y1_data a) = length (y2_data a))"

subsection \<open>A concrete library for evaluating the model\<close>

text \<open>
  An instance of the library parameters for ASCII traffic and unsigned decimal
  literals (\<^verbatim>\<open>12.50\<close>, \<^verbatim>\<open>5\<close>, \<^verbatim>\<open>.5\<close>), with the floats read as reals. It
  is used to run the model on concrete lines; the theorems hold for every
  library.
\<close>

definition is_digit :: "char \<Rightarrow> bool" where
  "is_digit c = (48 \<le> (of_char c :: nat) \<and> (of_char c :: nat) \<le> 57)"

definition nat_of_digits :: "string \<Rightarrow> nat" where
  "nat_of_digits ds = foldl (\<lambda>n c. 10 * n + (of_char c - 48)) 0 ds"

definition decimal_of :: "string \<Rightarrow> real option" where
  "decimal_of s =
     (let t = strip s;
          ip = takeWhile is_digit t;
          rest = dropWhile is_digit t
      in if rest = [] then (if ip = [] then None else Some (of_nat (nat_of_digits ip)))
         else if hd rest = CHR ''.'' \<and> list_all is_digit (tl rest) \<and> (ip \<noteq> [] \<or> tl rest \<noteq> [])
         then Some (of_nat (nat_of_digits (ip @ tl rest)) / 10 ^ length (tl rest))
         else None)"

definition decode_ascii :: "bytes \<Rightarrow> string option" where
  "decode_ascii bs = (if list_all (\<lambda>b. (of_char b :: nat) < 128) bs then Some bs else None)"

text \<open>A file can be created in the working directory when its name is not
  empty and has no path separator and no NUL.\<close>

definition os_write :: "string \<Rightarrow> exn option" where
  "os_write name =
     (if name \<noteq> [] \<and> list_all (\<lambda>c. c \<noteq> CHR ''/'' \<and> (of_char c :: nat) \<noteq> 0) name
      then None else Some (OSError_write name))"

text \<open>A paragraph text is accepted when it has no entity and no tag besides
  the opening and the closing one that the code puts around it.\<close>

definition plain_paragraph :: "string \<Rightarrow> exn option" where
  "plain_paragraph t =
     (if length (filter (\<lambda>c. c = CHR ''<'') t) = 2 \<and> list_all (\<lambda>c. c \<noteq> CHR ''&'') t
      then None else Some (ValueError_markup t))"

text \<open>The database takes an age that fits a signed 64-bit integer.\<close>

definition sqlite_insert :: "patient_row \<Rightarrow> exn option" where
  "sqlite_insert r =
     (if - (2 ^ 63) \<le> age_patient (fst r) \<and> age_patient (fst r) < 2 ^ 63 then None
      else Some OverflowError_sqlite)"

definition ascii_lib :: "real pylib" where
  "ascii_lib =
     \<lparr>decode_utf8 = decode_ascii, float_of = decimal_of,
      db_insert = sqlite_insert, savefig = os_write, mk_paragraph = plain_paragraph,
      doc_build = (\<lambda>name doc. os_write name)\<rparr>"




subsection \<open>Concrete states for evaluating the model\<close>

definition open_port :: serial where
  "open_port = \<lparr>is_open = True, rx_lines = [], tx = []\<rparr>"

definition closed_port :: serial where
  "closed_port = \<lparr>is_open = False, rx_lines = [], tx = []\<rparr>"

text \<open>The application after \<^verbatim>\<open>__init__\<close> with an open port, with no port
  object and with a port object that is closed.\<close>

definition fresh_app :: "real app" where
  "fresh_app = app_init (Some open_port) [] Map.empty"

definition unlinked_app :: "real app" where
  "unlinked_app = app_init None [] Map.empty"

definition closed_app :: "real app" where
  "closed_app = app_init (Some closed_port) [] Map.empty"

text \<open>A session that was started at clock reading 100 and has decoded one
  line at clock reading 101.\<close>

definition running_app :: "real app" where
  "running_app =
     run ascii_lib [Start 100, Arrive ''10.0,5.0\<newline>'', Tick 101] fresh_app"

text \<open>The same session with a second valid line waiting in the port.\<close>

definition waiting_app :: "real app" where
  "waiting_app =
     run ascii_lib [Start 100, Arrive ''10.0,5.0\<newline>'', Tick 101, Arrive ''20.0,15.0\<newline>''] fresh_app"

text \<open>The same session with a line waiting whose first field is a number
  and whose second field is not.\<close>

definition half_line_app :: "real app" where
  "half_line_app =
     run ascii_lib [Start 100, Arrive ''10.0,5.0\<newline>'', Tick 101, Arrive ''7.5,abc\<newline>''] fresh_app"


text \<open>The device delivers two valid lines.\<close>

definition two_lines :: "event list" where
  "two_lines = [Arrive ''10.0,5.0\<newline>'', Arrive ''20.0,15.0\<newline>'']"






section \<open>Properties of the handlers\<close>

subsection \<open>What one call of a handler does\<close>

lemma split_sep_not_Nil: "split_sep sep s \<noteq> []"
  by (induction s) auto

lemma update_plot_cases:
  obtains
    (idle) "update_plot L now a = (None, a\<lparr>pending := pending a @ [100]\<rparr>)"
  | (dropped) p where "serial_port a = Some p"
      "update_plot L now a =
         (None, a\<lparr>serial_port := Some (snd (readline p)), pending := pending a @ [100]\<rparr>)"
  | (logged) p e where "serial_port a = Some p"
      "update_plot L now a =
         (None, a\<lparr>serial_port := Some (snd (readline p)),
                   log := log a @ [(''Plot Update Error: '', e)],
                   stdout := stdout a @ [(''Plot Update Error: '', e)],
                   pending := pending a @ [100]\<rparr>)"
  | (sample) p st y1 y2 where "serial_port a = Some p" "start_time a = Some st"
      "update_plot L now a =
         (None, (append_sample (now - st) y1 y2 (a\<lparr>serial_port := Some (snd (readline p))\<rparr>))
                  \<lparr>pending := pending a @ [100]\<rparr>)"
proof (cases "serial_port a")
  case None
  then have "update_plot L now a = (None, a\<lparr>pending := pending a @ [100]\<rparr>)"
    by (simp add: update_plot_def)
  then show ?thesis by (rule idle)
next
  case (Some p)
  show ?thesis
  proof (cases "is_running a \<and> is_open p \<and> 0 < in_waiting p")
    case False
    with Some have "update_plot L now a = (None, a\<lparr>pending := pending a @ [100]\<rparr>)"
      by (auto simp add: update_plot_def update_plot_try_def plot_update_error_def)
    then show ?thesis by (rule idle)
  next
    case True
    obtain raw p' where rl: "readline p = (raw, p')" by (cases "readline p")
    show ?thesis
    proof (cases "decode_fields L raw")
      case (Inl e)
      with Some True rl have "update_plot L now a =
         (None, a\<lparr>serial_port := Some (snd (readline p)),
                   log := log a @ [(''Plot Update Error: '', e)],
                   stdout := stdout a @ [(''Plot Update Error: '', e)],
                   pending := pending a @ [100]\<rparr>)"
        by (simp add: update_plot_def update_plot_try_def plot_update_error_def)
      with Some show ?thesis by (rule logged)
    next
      case (Inr data)
      show ?thesis
      proof (cases "length data = 2")
        case False
        with Some True rl Inr have "update_plot L now a =
           (None, a\<lparr>serial_port := Some (snd (readline p)), pending := pending a @ [100]\<rparr>)"
          by (simp add: update_plot_def update_plot_try_def plot_update_error_def)
        with Some show ?thesis by (rule dropped)
      next
        case len: True
        show ?thesis
        proof (cases "map_float L (data ! 0) (data ! 1)")
          case (Inl e)
          with Some True rl Inr len have "update_plot L now a =
             (None, a\<lparr>serial_port := Some (snd (readline p)),
                   log := log a @ [(''Plot Update Error: '', e)],
                   stdout := stdout a @ [(''Plot Update Error: '', e)],
                   pending := pending a @ [100]\<rparr>)"
            by (simp add: update_plot_def update_plot_try_def plot_update_error_def)
          with Some show ?thesis by (rule logged)
        next
          case (Inr ys)
          obtain y1 y2 where ys: "ys = (y1, y2)" by (cases ys)
          show ?thesis
          proof (cases "start_time a")
            case None
            with Some True rl \<open>decode_fields L raw = Inr data\<close> len Inr ys
            have "update_plot L now a =
             (None, a\<lparr>serial_port := Some (snd (readline p)),
                   log := log a @ [(''Plot Update Error: '', AttributeError_start_time)],
                   stdout := stdout a @ [(''Plot Update Error: '', AttributeError_start_time)],
                   pending := pending a @ [100]\<rparr>)"
              by (simp add: update_plot_def update_plot_try_def plot_update_error_def)
            with Some show ?thesis by (rule logged)
          next
            case st: (Some st)
            with Some True rl \<open>decode_fields L raw = Inr data\<close> len Inr ys
            have "update_plot L now a =
               (None, (append_sample (now - st) y1 y2 (a\<lparr>serial_port := Some (snd (readline p))\<rparr>))
                  \<lparr>pending := pending a @ [100]\<rparr>)"
              by (simp add: update_plot_def update_plot_try_def plot_update_error_def append_sample_def Let_def)
            with Some st show ?thesis by (rule sample)
          qed
        qed
      qed
    qed
  qed
qed


lemma update_plot_bad_float:
  assumes "serial_port a = Some p" "is_open p" "is_running a" "0 < in_waiting p"
    and "rx_lines p = raw # rest" "decode_utf8 L raw = Some t"
    and "split_sep CHR '','' (strip t) = [f1, f2]"
    and "map_float L f1 f2 = Inl e"
  shows "update_plot L now a =
           (None, a\<lparr>serial_port := Some (p\<lparr>rx_lines := rest\<rparr>),
                     log := log a @ [(''Plot Update Error: '', e)],
                     stdout := stdout a @ [(''Plot Update Error: '', e)],
                     pending := pending a @ [100]\<rparr>)"
  using assms
  by (simp add: update_plot_def update_plot_try_def plot_update_error_def readline_def
      decode_fields_def)

lemma update_plot_sample:
  assumes "serial_port a = Some p" "is_open p" "is_running a" "0 < in_waiting p"
    and "rx_lines p = raw # rest" "decode_utf8 L raw = Some t"
    and "split_sep CHR '','' (strip t) = [f1, f2]"
    and "float_of L f1 = Some y1" "float_of L f2 = Some y2"
    and "start_time a = Some st"
  shows "update_plot L now a =
           (None, (append_sample (now - st) y1 y2 (a\<lparr>serial_port := Some (p\<lparr>rx_lines := rest\<rparr>)\<rparr>))
                    \<lparr>pending := pending a @ [100]\<rparr>)"
  using assms
  by (simp add: update_plot_def update_plot_try_def plot_update_error_def readline_def
      decode_fields_def map_float_def append_sample_def Let_def)

lemma append_sample_data:
  "x_data (append_sample c y1 y2 a) = x_data a @ [c]"
  "y1_data (append_sample c y1 y2 a) = y1_data a @ [y1]"
  "y2_data (append_sample c y1 y2 a) = y2_data a @ [y2]"
  by (simp_all add: append_sample_def Let_def)

lemma append_sample_frame:
  "serial_port (append_sample c y1 y2 a) = serial_port a"
  "is_running (append_sample c y1 y2 a) = is_running a"
  "start_time (append_sample c y1 y2 a) = start_time a"
  "pending (append_sample c y1 y2 a) = pending a"
  "log (append_sample c y1 y2 a) = log a"
  "stdout (append_sample c y1 y2 a) = stdout a"
  "dialogs (append_sample c y1 y2 a) = dialogs a"
  "patients (append_sample c y1 y2 a) = patients a"
  "files (append_sample c y1 y2 a) = files a"
  by (simp_all add: append_sample_def Let_def)

lemma start_action_link_open:
  assumes "serial_port a = Some p" "is_open p"
  shows "start_action now a =
           (None, (initialize_plot_data now a)\<lparr>serial_port := Some (p\<lparr>tx := tx p @ ''A''\<rparr>)\<rparr>)"
  using assms
  by (simp add: start_action_def start_serial_communication_def initialize_plot_data_def
      serial_write_def)

lemma start_action_state:
  "is_running (snd (start_action now a))"
  "start_time (snd (start_action now a)) = Some now"
  "x_data (snd (start_action now a)) = []"
  "y1_data (snd (start_action now a)) = []"
  "y2_data (snd (start_action now a)) = []"
  by (simp_all add: start_action_def start_serial_communication_def initialize_plot_data_def
      split: option.splits sum.splits)

lemma clear_action_twice: "clear_action (clear_action a) = clear_action a"
  by (simp add: clear_action_def)

lemma clear_action_frame:
  "serial_port (clear_action a) = serial_port a"
  "is_running (clear_action a) = is_running a"
  "start_time (clear_action a) = start_time a"
  "pending (clear_action a) = pending a"
  "files (clear_action a) = files a"
  by (simp_all add: clear_action_def)

lemma clear_action_data:
  "x_data (clear_action a) = []" "y1_data (clear_action a) = []" "y2_data (clear_action a) = []"
  by (simp_all add: clear_action_def)

subsection \<open>Frame properties of the handlers and of the event loop\<close>

lemma update_plot_frame:
  "fst (update_plot L now a) = None"
  "is_running (snd (update_plot L now a)) = is_running a"
  "start_time (snd (update_plot L now a)) = start_time a"
  "pending (snd (update_plot L now a)) = pending a @ [100]"
  "files (snd (update_plot L now a)) = files a"
  "dialogs (snd (update_plot L now a)) = dialogs a"
  "patients (snd (update_plot L now a)) = patients a"
  by (cases rule: update_plot_cases [of L now a]; simp add: append_sample_frame)+

lemma update_plot_stopped:
  "\<not> is_running a \<Longrightarrow> update_plot L now a = (None, a\<lparr>pending := pending a @ [100]\<rparr>)"
  by (simp add: update_plot_def split: option.splits)

lemma update_plot_data:
  "(x_data (snd (update_plot L now a)) = x_data a
      \<and> y1_data (snd (update_plot L now a)) = y1_data a
      \<and> y2_data (snd (update_plot L now a)) = y2_data a)
   \<or> (\<exists>st y1 y2. start_time a = Some st
      \<and> x_data (snd (update_plot L now a)) = x_data a @ [now - st]
      \<and> y1_data (snd (update_plot L now a)) = y1_data a @ [y1]
      \<and> y2_data (snd (update_plot L now a)) = y2_data a @ [y2])"
  by (cases rule: update_plot_cases [of L now a]) (simp_all add: append_sample_data)

lemma tick_frame:
  "is_running (tick L now a) = is_running a"
  "start_time (tick L now a) = start_time a"
  "length (pending (tick L now a)) = length (pending a)"
  "files (tick L now a) = files a"
  by (simp_all add: tick_def update_plot_frame split: list.splits)

lemma tick_stopped:
  "\<not> is_running a \<Longrightarrow> x_data (tick L now a) = x_data a"
  "\<not> is_running a \<Longrightarrow> y1_data (tick L now a) = y1_data a"
  "\<not> is_running a \<Longrightarrow> y2_data (tick L now a) = y2_data a"
  "\<not> is_running a \<Longrightarrow> serial_port (tick L now a) = serial_port a"
  by (simp_all add: tick_def update_plot_stopped split: list.splits)

lemma tick_data:
  "(x_data (tick L now a) = x_data a
      \<and> y1_data (tick L now a) = y1_data a
      \<and> y2_data (tick L now a) = y2_data a)
   \<or> (\<exists>st y1 y2. start_time a = Some st
      \<and> x_data (tick L now a) = x_data a @ [now - st]
      \<and> y1_data (tick L now a) = y1_data a @ [y1]
      \<and> y2_data (tick L now a) = y2_data a @ [y2])"
proof (cases "pending a")
  case Nil
  then show ?thesis by (simp add: tick_def)
next
  case (Cons d ds)
  with update_plot_data [of L now "a\<lparr>pending := ds\<rparr>"] show ?thesis
    by (simp add: tick_def)
qed

lemma arrive_frame:
  "x_data (arrive raw a) = x_data a"
  "y1_data (arrive raw a) = y1_data a"
  "y2_data (arrive raw a) = y2_data a"
  "is_running (arrive raw a) = is_running a"
  "start_time (arrive raw a) = start_time a"
  "pending (arrive raw a) = pending a"
  "files (arrive raw a) = files a"
  by (simp_all add: arrive_def split: option.splits)

lemma stop_action_frame:
  "x_data (stop_action a) = x_data a"
  "y1_data (stop_action a) = y1_data a"
  "y2_data (stop_action a) = y2_data a"
  "start_time (stop_action a) = start_time a"
  "pending (stop_action a) = pending a"
  "serial_port (stop_action a) = serial_port a"
  "files (stop_action a) = files a"
  "\<not> is_running (stop_action a)"
  by (simp_all add: stop_action_def)

lemma run_stopped:
  assumes "\<not> is_running a" and "\<forall>e\<in>set evs. is_tick_or_arrive e"
  shows "x_data (run L evs a) = x_data a \<and> y1_data (run L evs a) = y1_data a
       \<and> y2_data (run L evs a) = y2_data a \<and> \<not> is_running (run L evs a)
       \<and> length (pending (run L evs a)) = length (pending a)"
  using assms
proof (induction evs arbitrary: a)
  case Nil
  then show ?case by simp
next
  case (Cons e es)
  from Cons.prems(2) have e: "is_tick_or_arrive e" and es: "\<forall>e\<in>set es. is_tick_or_arrive e"
    by simp_all
  from e Cons.prems(1) have s: "\<not> is_running (step L e a)"
    "x_data (step L e a) = x_data a" "y1_data (step L e a) = y1_data a"
    "y2_data (step L e a) = y2_data a" "length (pending (step L e a)) = length (pending a)"
    by (cases e; simp add: tick_frame tick_stopped arrive_frame)+
  from Cons.IH [OF s(1) es] s show ?case by simp
qed

lemma plt_savefig_frame:
  "x_data (snd (plt_savefig L n g a)) = x_data a"
  "y1_data (snd (plt_savefig L n g a)) = y1_data a"
  "y2_data (snd (plt_savefig L n g a)) = y2_data a"
  "is_running (snd (plt_savefig L n g a)) = is_running a"
  "start_time (snd (plt_savefig L n g a)) = start_time a"
  "serial_port (snd (plt_savefig L n g a)) = serial_port a"
  "pending (snd (plt_savefig L n g a)) = pending a"
  "patients (snd (plt_savefig L n g a)) = patients a"
  "dialogs (snd (plt_savefig L n g a)) = dialogs a"
  "log (snd (plt_savefig L n g a)) = log a"
  by (simp_all add: plt_savefig_def split: option.splits)

lemma save_plots_frame:
  "x_data (snd (save_plots L ff vf a)) = x_data a"
  "y1_data (snd (save_plots L ff vf a)) = y1_data a"
  "y2_data (snd (save_plots L ff vf a)) = y2_data a"
  "is_running (snd (save_plots L ff vf a)) = is_running a"
  "start_time (snd (save_plots L ff vf a)) = start_time a"
  "serial_port (snd (save_plots L ff vf a)) = serial_port a"
  "pending (snd (save_plots L ff vf a)) = pending a"
  "patients (snd (save_plots L ff vf a)) = patients a"
  "dialogs (snd (save_plots L ff vf a)) = dialogs a"
  "log (snd (save_plots L ff vf a)) = log a"
proof -
  define g1 where "g1 = Figure ''Flowrate'' (x_data a) (y1_data a)"
  obtain e1 a1 where s1: "plt_savefig L ff g1 a = (e1, a1)"
    by (cases "plt_savefig L ff g1 a")
  define g2 where "g2 = Figure ''Volume'' (x_data a1) (y2_data a1)"
  obtain e2 a2 where s2: "plt_savefig L vf g2 a1 = (e2, a2)"
    by (cases "plt_savefig L vf g2 a1")
  note f1 = plt_savefig_frame [of L ff g1 a, unfolded s1 snd_conv]
  note f2 = plt_savefig_frame [of L vf g2 a1, unfolded s2 snd_conv]
  have "snd (save_plots L ff vf a) = a \<or> snd (save_plots L ff vf a) = a1
      \<or> snd (save_plots L ff vf a) = a2"
    using s1 s2 by (simp add: save_plots_def plt_plot_def g1_def g2_def split: option.splits)
  then show
    "x_data (snd (save_plots L ff vf a)) = x_data a"
    "y1_data (snd (save_plots L ff vf a)) = y1_data a"
    "y2_data (snd (save_plots L ff vf a)) = y2_data a"
    "is_running (snd (save_plots L ff vf a)) = is_running a"
    "start_time (snd (save_plots L ff vf a)) = start_time a"
    "serial_port (snd (save_plots L ff vf a)) = serial_port a"
    "pending (snd (save_plots L ff vf a)) = pending a"
    "patients (snd (save_plots L ff vf a)) = patients a"
    "dialogs (snd (save_plots L ff vf a)) = dialogs a"
    "log (snd (save_plots L ff vf a)) = log a"
    using f1 f2 by auto
qed

lemma pdf_error_frame:
  "x_data (pdf_error e a) = x_data a"
  "y1_data (pdf_error e a) = y1_data a"
  "y2_data (pdf_error e a) = y2_data a"
  "is_running (pdf_error e a) = is_running a"
  "start_time (pdf_error e a) = start_time a"
  "serial_port (pdf_error e a) = serial_port a"
  "pending (pdf_error e a) = pending a"
  "patients (pdf_error e a) = patients a"
  "dialogs (pdf_error e a) = dialogs a"
  by (simp_all add: pdf_error_def)

lemma generate_pdf_result:
  "(\<exists>e. generate_pdf L d pid n1 n2 g h ad df dl a
          = pdf_error e (snd (save_plots L ''flow.png'' ''volume.png'' a)))
   \<or> (\<exists>n doc. generate_pdf L d pid n1 n2 g h ad df dl a
          = (snd (save_plots L ''flow.png'' ''volume.png'' a))
              \<lparr>files := (files (snd (save_plots L ''flow.png'' ''volume.png'' a)))(n \<mapsto> Pdf doc)\<rparr>)"
  by (cases "save_plots L ''flow.png'' ''volume.png'' a")
    (auto simp add: generate_pdf_def Let_def split: option.splits sum.splits)

lemma generate_pdf_frame:
  "x_data (generate_pdf L d pid n1 n2 g h ad df dl a) = x_data a"
  "y1_data (generate_pdf L d pid n1 n2 g h ad df dl a) = y1_data a"
  "y2_data (generate_pdf L d pid n1 n2 g h ad df dl a) = y2_data a"
  "is_running (generate_pdf L d pid n1 n2 g h ad df dl a) = is_running a"
  "start_time (generate_pdf L d pid n1 n2 g h ad df dl a) = start_time a"
  "serial_port (generate_pdf L d pid n1 n2 g h ad df dl a) = serial_port a"
  "pending (generate_pdf L d pid n1 n2 g h ad df dl a) = pending a"
  "patients (generate_pdf L d pid n1 n2 g h ad df dl a) = patients a"
  "dialogs (generate_pdf L d pid n1 n2 g h ad df dl a) = dialogs a"
  using generate_pdf_result [of L d pid n1 n2 g h ad df dl a]
    save_plots_frame [of L "''flow.png''" "''volume.png''" a]
  by (auto simp add: pdf_error_frame)

lemma submit_frame:
  "x_data (submit L f c d a) = x_data a"
  "y1_data (submit L f c d a) = y1_data a"
  "y2_data (submit L f c d a) = y2_data a"
  "is_running (submit L f c d a) = is_running a"
  "start_time (submit L f c d a) = start_time a"
  "serial_port (submit L f c d a) = serial_port a"
  "pending (submit L f c d a) = pending a"
  by (simp_all add: submit_def save_error_def Let_def generate_pdf_frame split: option.splits)

lemma step_start_time:
  "\<not> is_start e \<Longrightarrow> start_time (step L e a) = start_time a"
  by (cases e) (simp_all add: stop_action_frame clear_action_frame tick_frame arrive_frame
      submit_frame)

lemma run_start_time:
  "\<forall>e\<in>set evs. \<not> is_start e \<Longrightarrow> start_time (run L evs a) = start_time a"
  by (induction evs arbitrary: a) (simp_all add: step_start_time)

lemma step_same_length:
  assumes "same_length a"
  shows "same_length (step L e a)"
proof (cases e)
  case (Tick now)
  with assms tick_data [of L now a] show ?thesis
    by (auto simp add: same_length_def)
next
  case (Start now)
  then show ?thesis by (simp add: same_length_def start_action_state)
qed (use assms in \<open>simp_all add: same_length_def stop_action_frame clear_action_data
      arrive_frame submit_frame\<close>)

lemma run_same_length:
  "same_length a \<Longrightarrow> same_length (run L evs a)"
  by (induction evs arbitrary: a) (simp_all add: step_same_length)

lemma run_sorted:
  assumes "\<forall>e\<in>set evs. \<not> is_start e" and "sorted (tick_times evs)"
    and "start_time a = Some st" and "sorted (x_data a)"
    and "\<forall>x\<in>set (x_data a). \<forall>t\<in>set (tick_times evs). x + st \<le> t"
  shows "sorted (x_data (run L evs a))"
  using assms
proof (induction evs arbitrary: a)
  case Nil
  then show ?case by simp
next
  case (Cons e es)
  from Cons.prems(1) have ne: "\<not> is_start e" and nes: "\<forall>e\<in>set es. \<not> is_start e"
    by simp_all
  from ne Cons.prems(3) have st: "start_time (step L e a) = Some st"
    by (simp add: step_start_time)
  show ?case
  proof (cases e)
    case (Tick now)
    with Cons.prems(2) have ts: "sorted (tick_times es)" and le: "\<forall>t\<in>set (tick_times es). now \<le> t"
      by simp_all
    from Tick Cons.prems(5) have old: "\<forall>x\<in>set (x_data a). x + st \<le> now"
      and olds: "\<forall>x\<in>set (x_data a). \<forall>t\<in>set (tick_times es). x + st \<le> t"
      by simp_all
    from tick_data [of L now a] Cons.prems(3)
    consider "x_data (tick L now a) = x_data a" | "x_data (tick L now a) = x_data a @ [now - st]"
      by auto
    then have "sorted (x_data (tick L now a))
        \<and> (\<forall>x\<in>set (x_data (tick L now a)). \<forall>t\<in>set (tick_times es). x + st \<le> t)"
    proof cases
      case 1
      with Cons.prems(4) olds show ?thesis by simp
    next
      case 2
      from old have "\<forall>x\<in>set (x_data a). x \<le> now - st"
        by (simp add: le_diff_eq)
      with 2 Cons.prems(4) olds le show ?thesis
        by (simp add: sorted_append)
    qed
    with Cons.IH [OF nes ts st] Tick show ?thesis by simp
  next
    case (Start now)
    with ne show ?thesis by simp
  next
    case Stop
    with Cons.prems Cons.IH [OF nes _ st] show ?thesis
      by (simp add: stop_action_frame)
  next
    case Clear
    with Cons.prems Cons.IH [OF nes _ st] show ?thesis
      by (simp add: clear_action_data)
  next
    case (Arrive raw)
    with Cons.prems Cons.IH [OF nes _ st] show ?thesis
      by (simp add: arrive_frame)
  next
    case (Save f c d)
    with Cons.prems Cons.IH [OF nes _ st] show ?thesis
      by (simp add: submit_frame)
  qed
qed

subsection \<open>Saving a buffer whose series have one length\<close>











subsection \<open>The concrete states, evaluated\<close>

lemmas eval_defs = fresh_app_def open_port_def closed_port_def app_init_def
  start_action_def initialize_plot_data_def start_serial_communication_def serial_write_def
  stop_action_def clear_action_def arrive_def tick_def update_plot_def update_plot_try_def
  in_waiting_def readline_def plot_update_error_def decode_fields_def ascii_lib_def
  decode_ascii_def strip_def isspace_def map_float_def decimal_of_def is_digit_def
  nat_of_digits_def append_sample_def Let_def

lemma running_app_fields:
  "is_running running_app" "serial_port running_app = Some (open_port\<lparr>tx := ''A''\<rparr>)"
  "x_data running_app = [1]" "y1_data running_app = [10]" "y2_data running_app = [5]"
  "start_time running_app = Some 100" "pending running_app = [100]"
  by (simp_all add: running_app_def eval_defs)

lemma waiting_app_fields:
  "is_running waiting_app"
  "serial_port waiting_app = Some \<lparr>is_open = True, rx_lines = [''20.0,15.0\<newline>''], tx = ''A''\<rparr>"
  "x_data waiting_app = [1]" "y1_data waiting_app = [10]" "y2_data waiting_app = [5]"
  "start_time waiting_app = Some 100" "pending waiting_app = [100]"
  "log waiting_app = []"
  by (simp_all add: waiting_app_def eval_defs)

lemma line_20_15:
  "decode_utf8 ascii_lib ''20.0,15.0\<newline>'' = Some ''20.0,15.0\<newline>''"
  "split_sep CHR '','' (strip ''20.0,15.0\<newline>'') = [''20.0'', ''15.0'']"
  "float_of ascii_lib ''20.0'' = Some 20"
  "float_of ascii_lib ''15.0'' = Some 15"
  by (simp_all add: eval_defs)

lemma half_line_app_fields:
  "is_running half_line_app"
  "serial_port half_line_app = Some \<lparr>is_open = True, rx_lines = [''7.5,abc\<newline>''], tx = ''A''\<rparr>"
  "x_data half_line_app = [1]" "y1_data half_line_app = [10]" "y2_data half_line_app = [5]"
  "start_time half_line_app = Some 100" "pending half_line_app = [100]"
  "log half_line_app = []"
  by (simp_all add: half_line_app_def eval_defs)

lemma line_75_abc:
  "decode_utf8 ascii_lib ''7.5,abc\<newline>'' = Some ''7.5,abc\<newline>''"
  "split_sep CHR '','' (strip ''7.5,abc\<newline>'') = [''7.5'', ''abc'']"
  "float_of ascii_lib ''7.5'' = Some (15 / 2)"
  "float_of ascii_lib ''abc'' = None"
  by (simp_all add: eval_defs)







subsection \<open>C1: Start while the link is not open\<close>

text \<open>
  Claim C1, as the code has it. \<^verbatim>\<open>start_action\<close> has no test of the link
  before \<^verbatim>\<open>initialize_plot_data\<close>: when the link is not open (no port object,
  or a port object that is closed), Start still makes the session Running,
  records \<open>start_time = now\<close> and empties the three series; nothing is written
  to the port. With no port object the handler returns normally; with a closed
  port object the write raises \<^verbatim>\<open>PortNotOpenError\<close> after the state has
  changed.
\<close>

theorem start_without_link_changes_state:
  assumes "\<not> link_open a"
  shows "is_running (snd (start_action now a))
       \<and> start_time (snd (start_action now a)) = Some now
       \<and> x_data (snd (start_action now a)) = []
       \<and> y1_data (snd (start_action now a)) = []
       \<and> y2_data (snd (start_action now a)) = []
       \<and> serial_port (snd (start_action now a)) = serial_port a
       \<and> fst (start_action now a) =
           (case serial_port a of None \<Rightarrow> None | Some p \<Rightarrow> Some PortNotOpenError)"
  using assms
  by (auto simp add: link_open_def start_action_def start_serial_communication_def
      initialize_plot_data_def serial_write_def split: option.splits)

theorem start_without_link_changes_state_witness:
  "\<not> link_open closed_app \<and> \<not> is_running closed_app
   \<and> is_running (snd (start_action 100 closed_app))
   \<and> start_time (snd (start_action 100 closed_app)) = Some 100
   \<and> serial_port (snd (start_action 100 closed_app)) = Some closed_port
   \<and> fst (start_action 100 closed_app) = Some PortNotOpenError"
proof -
  have c: "\<not> link_open closed_app"
    by (simp add: link_open_def closed_app_def app_init_def closed_port_def)
  have "serial_port closed_app = Some closed_port" "\<not> is_running closed_app"
    by (simp_all add: closed_app_def app_init_def)
  with c start_without_link_changes_state [OF c, of 100] show ?thesis
    by simp
qed

text \<open>
  The claim as stated (Start fails and leaves the state unchanged, the session
  does not become Running) is false for both kinds of missing link: the
  session was not Running before and is Running afterwards, and with no port
  object no error is produced at all.
\<close>

theorem start_without_link_counterexample:
  "\<not> link_open unlinked_app \<and> \<not> is_running unlinked_app
   \<and> fst (start_action 100 unlinked_app) = None
   \<and> is_running (snd (start_action 100 unlinked_app))
   \<and> snd (start_action 100 unlinked_app) \<noteq> unlinked_app
   \<and> \<not> link_open closed_app \<and> \<not> is_running closed_app
   \<and> is_running (snd (start_action 100 closed_app))
   \<and> snd (start_action 100 closed_app) \<noteq> closed_app"
proof -
  have u: "\<not> is_running unlinked_app" "\<not> is_running closed_app"
    by (simp_all add: unlinked_app_def closed_app_def app_init_def)
  have r: "is_running (snd (start_action 100 unlinked_app))"
    "is_running (snd (start_action 100 closed_app))"
    by (rule start_action_state)+
  from u r have "snd (start_action 100 unlinked_app) \<noteq> unlinked_app"
    "snd (start_action 100 closed_app) \<noteq> closed_app"
    by auto
  moreover have "\<not> link_open unlinked_app" "\<not> link_open closed_app"
    by (simp_all add: link_open_def unlinked_app_def closed_app_def closed_port_def app_init_def)
  moreover have "fst (start_action 100 unlinked_app) = None"
    by (simp add: start_action_def start_serial_communication_def initialize_plot_data_def
        unlinked_app_def app_init_def)
  ultimately show ?thesis using u r by simp
qed

subsection \<open>C2: Save\<close>




subsection \<open>C3: a malformed line is discarded\<close>




subsection \<open>C4: a valid line is decoded into one sample\<close>

text \<open>
  Claim C4. Let the session have been started at clock reading \<open>t0\<close> and let
  any events but a Start have followed. If the session is Running, the link is
  open and the line at the head of the input buffer decodes to exactly two
  fields \<open>f\<close> and \<open>v\<close> that \<^verbatim>\<open>float\<close> accepts, then the tick at clock
  reading \<open>now\<close> raises nothing and appends exactly one sample: \<open>now - t0\<close>
  to the time series, \<^verbatim>\<open>float(f)\<close> to the flow series and \<^verbatim>\<open>float(v)\<close> to the
  volume series; the line is consumed.
\<close>

theorem valid_line_appends_one_sample:
  assumes "\<forall>e\<in>set evs. \<not> is_start e"
    and "a = run L evs (snd (start_action t0 a0))"
    and "is_running a" and "serial_port a = Some p" and "is_open p" and "0 < in_waiting p"
    and "rx_lines p = raw # rest" and "decode_utf8 L raw = Some t"
    and "split_sep CHR '','' (strip t) = [f, v]"
    and "float_of L f = Some y1" and "float_of L v = Some y2"
  shows "fst (update_plot L now a) = None
       \<and> x_data (snd (update_plot L now a)) = x_data a @ [now - t0]
       \<and> y1_data (snd (update_plot L now a)) = y1_data a @ [y1]
       \<and> y2_data (snd (update_plot L now a)) = y2_data a @ [y2]
       \<and> serial_port (snd (update_plot L now a)) = Some (p\<lparr>rx_lines := rest\<rparr>)"
proof -
  from assms(1,2) have st: "start_time a = Some t0"
    by (simp add: run_start_time start_action_state)
  have "update_plot L now a =
          (None, (append_sample (now - t0) y1 y2 (a\<lparr>serial_port := Some (p\<lparr>rx_lines := rest\<rparr>)\<rparr>))
                   \<lparr>pending := pending a @ [100]\<rparr>)"
    using assms(4,5,3,6-11) st by (rule update_plot_sample)
  then show ?thesis
    by (simp add: append_sample_data append_sample_frame)
qed

theorem valid_line_appends_one_sample_witness:
  "waiting_app = run ascii_lib [Arrive ''10.0,5.0\<newline>'', Tick 101, Arrive ''20.0,15.0\<newline>'']
                   (snd (start_action 100 fresh_app))
   \<and> is_running waiting_app \<and> x_data waiting_app = [1]
   \<and> fst (update_plot ascii_lib 103 waiting_app) = None
   \<and> x_data (snd (update_plot ascii_lib 103 waiting_app)) = [1, 3]
   \<and> y1_data (snd (update_plot ascii_lib 103 waiting_app)) = [10, 20]
   \<and> y2_data (snd (update_plot ascii_lib 103 waiting_app)) = [5, 15]
   \<and> serial_port (snd (update_plot ascii_lib 103 waiting_app))
       = Some \<lparr>is_open = True, rx_lines = [], tx = ''A''\<rparr>"
proof -
  have e: "\<forall>e\<in>set [Arrive ''10.0,5.0\<newline>'', Tick 101, Arrive ''20.0,15.0\<newline>'']. \<not> is_start e"
    by simp
  have a: "waiting_app = run ascii_lib [Arrive ''10.0,5.0\<newline>'', Tick 101, Arrive ''20.0,15.0\<newline>'']
                   (snd (start_action 100 fresh_app))"
    by (simp add: waiting_app_def)
  have o: "is_open \<lparr>is_open = True, rx_lines = [''20.0,15.0\<newline>''], tx = ''A''\<rparr>"
    and w: "0 < in_waiting \<lparr>is_open = True, rx_lines = [''20.0,15.0\<newline>''], tx = ''A''\<rparr>"
    and r: "rx_lines \<lparr>is_open = True, rx_lines = [''20.0,15.0\<newline>''], tx = ''A''\<rparr>
              = ''20.0,15.0\<newline>'' # []"
    by (simp_all add: in_waiting_def)
  from valid_line_appends_one_sample [OF e a waiting_app_fields(1,2) o w r line_20_15, of 103]
    a waiting_app_fields
  show ?thesis by simp
qed

subsection \<open>C5: Start with the link open\<close>

text \<open>
  Claim C5. From every prior state (the running flag may be set or not, the
  series may hold data or not) with the link open, Start returns without an
  exception, the session is Running, \<open>start_time\<close> is the clock reading of
  the call, the three series are empty, and exactly the byte \<^verbatim>\<open>A\<close> has been
  appended to what was written to the port.
\<close>

theorem start_resets_and_signals:
  assumes "serial_port a = Some p" and "is_open p"
  shows "fst (start_action now a) = None
       \<and> is_running (snd (start_action now a))
       \<and> start_time (snd (start_action now a)) = Some now
       \<and> x_data (snd (start_action now a)) = []
       \<and> y1_data (snd (start_action now a)) = []
       \<and> y2_data (snd (start_action now a)) = []
       \<and> serial_port (snd (start_action now a)) = Some (p\<lparr>tx := tx p @ ''A''\<rparr>)"
  using assms by (simp add: start_action_link_open initialize_plot_data_def)

theorem start_resets_and_signals_witness:
  "serial_port fresh_app = Some open_port \<and> is_open open_port
   \<and> fst (start_action 100 fresh_app) = None
   \<and> is_running (snd (start_action 100 fresh_app))
   \<and> start_time (snd (start_action 100 fresh_app)) = Some 100
   \<and> x_data (snd (start_action 100 fresh_app)) = []
   \<and> y1_data (snd (start_action 100 fresh_app)) = []
   \<and> y2_data (snd (start_action 100 fresh_app)) = []
   \<and> serial_port (snd (start_action 100 fresh_app)) = Some (open_port\<lparr>tx := ''A''\<rparr>)"
proof -
  have p: "serial_port fresh_app = Some open_port"
    by (simp add: fresh_app_def app_init_def)
  have q: "is_open open_port"
    by (simp add: open_port_def)
  have "tx open_port = []"
    by (simp add: open_port_def)
  with p q start_resets_and_signals [OF p q, of 100] show ?thesis
    by simp
qed

subsection \<open>C6: Clear\<close>

text \<open>
  Claim C6. From every state, Clear empties the three series and the two plot
  lines and sets the two labels back to their zero texts; a second Clear
  changes nothing more; the running flag, the session clock, the port and the
  armed timer are untouched. So when the session is Running and a valid line
  is waiting, the next tick appends its sample to the emptied series.
\<close>

theorem clear_empties_and_keeps_running:
  "x_data (clear_action a) = [] \<and> y1_data (clear_action a) = [] \<and> y2_data (clear_action a) = []
   \<and> line1 (clear_action a) = ([], []) \<and> line2 (clear_action a) = ([], [])
   \<and> y1_label (clear_action a) = Text ''Flowrate: 0 mL/s''
   \<and> y2_label (clear_action a) = Text ''Volume: 0 mL''
   \<and> clear_action (clear_action a) = clear_action a
   \<and> is_running (clear_action a) = is_running a
   \<and> start_time (clear_action a) = start_time a
   \<and> serial_port (clear_action a) = serial_port a
   \<and> pending (clear_action a) = pending a
   \<and> (is_running a \<and> serial_port a = Some p \<and> is_open p \<and> 0 < in_waiting p
        \<and> rx_lines p = raw # rest \<and> decode_utf8 L raw = Some t
        \<and> split_sep CHR '','' (strip t) = [f, v]
        \<and> float_of L f = Some y1 \<and> float_of L v = Some y2 \<and> start_time a = Some st
      \<longrightarrow> fst (update_plot L now (clear_action a)) = None
        \<and> x_data (snd (update_plot L now (clear_action a))) = [now - st]
        \<and> y1_data (snd (update_plot L now (clear_action a))) = [y1]
        \<and> y2_data (snd (update_plot L now (clear_action a))) = [y2])"
proof -
  have "fst (update_plot L now (clear_action a)) = None
        \<and> x_data (snd (update_plot L now (clear_action a))) = [now - st]
        \<and> y1_data (snd (update_plot L now (clear_action a))) = [y1]
        \<and> y2_data (snd (update_plot L now (clear_action a))) = [y2]"
    if h: "is_running a" "serial_port a = Some p" "is_open p" "0 < in_waiting p"
      "rx_lines p = raw # rest" "decode_utf8 L raw = Some t"
      "split_sep CHR '','' (strip t) = [f, v]"
      "float_of L f = Some y1" "float_of L v = Some y2" "start_time a = Some st"
  proof -
    have "update_plot L now (clear_action a) =
           (None, (append_sample (now - st) y1 y2
                     ((clear_action a)\<lparr>serial_port := Some (p\<lparr>rx_lines := rest\<rparr>)\<rparr>))
                    \<lparr>pending := pending (clear_action a) @ [100]\<rparr>)"
      using h by (intro update_plot_sample) (simp_all add: clear_action_frame)
    then show ?thesis
      by (simp add: append_sample_data clear_action_data)
  qed
  then show ?thesis
    by (simp add: clear_action_twice clear_action_frame clear_action_data)
      (simp add: clear_action_def)
qed

theorem clear_empties_and_keeps_running_witness:
  "x_data waiting_app = [1]
   \<and> x_data (clear_action waiting_app) = []
   \<and> y1_data (clear_action waiting_app) = []
   \<and> y2_data (clear_action waiting_app) = []
   \<and> clear_action (clear_action waiting_app) = clear_action waiting_app
   \<and> is_running (clear_action waiting_app)
   \<and> x_data (snd (update_plot ascii_lib 103 (clear_action waiting_app))) = [3]
   \<and> y1_data (snd (update_plot ascii_lib 103 (clear_action waiting_app))) = [20]
   \<and> y2_data (snd (update_plot ascii_lib 103 (clear_action waiting_app))) = [15]"
proof -
  note f = waiting_app_fields
  have w: "0 < in_waiting \<lparr>is_open = True, rx_lines = [''20.0,15.0\<newline>''], tx = ''A''\<rparr>"
    by (simp add: in_waiting_def)
  from clear_empties_and_keeps_running [of waiting_app
      "\<lparr>is_open = True, rx_lines = [''20.0,15.0\<newline>''], tx = ''A''\<rparr>"
      "''20.0,15.0\<newline>''" "[]" ascii_lib "''20.0,15.0\<newline>''" "''20.0''" "''15.0''" 20 15 100 103]
    f w line_20_15
  show ?thesis by simp
qed

subsection \<open>C7: Stop\<close>

text \<open>
  Claim C7. After Stop the session is not Running and the data collected so
  far is kept. Whatever lines arrive afterwards and however many ticks fire,
  the three series stay as they were at Stop and the session stays stopped;
  every tick is a pass-through that only arms the timer again, so the number of
  armed timers never changes.
\<close>

theorem stop_halts_appends:
  assumes "\<forall>e\<in>set evs. is_tick_or_arrive e"
  shows "\<not> is_running (stop_action a)
       \<and> x_data (stop_action a) = x_data a
       \<and> y1_data (stop_action a) = y1_data a
       \<and> y2_data (stop_action a) = y2_data a
       \<and> \<not> is_running (run L evs (stop_action a))
       \<and> x_data (run L evs (stop_action a)) = x_data a
       \<and> y1_data (run L evs (stop_action a)) = y1_data a
       \<and> y2_data (run L evs (stop_action a)) = y2_data a
       \<and> length (pending (run L evs (stop_action a))) = length (pending a)
       \<and> update_plot L now (run L evs (stop_action a)) =
           (None, (run L evs (stop_action a))
                    \<lparr>pending := pending (run L evs (stop_action a)) @ [100]\<rparr>)"
proof -
  have n: "\<not> is_running (stop_action a)"
    by (rule stop_action_frame)
  from run_stopped [OF n assms, of L]
  have r: "x_data (run L evs (stop_action a)) = x_data a"
    "y1_data (run L evs (stop_action a)) = y1_data a"
    "y2_data (run L evs (stop_action a)) = y2_data a"
    "\<not> is_running (run L evs (stop_action a))"
    "length (pending (run L evs (stop_action a))) = length (pending a)"
    by (simp_all add: stop_action_frame)
  from r(4) have "update_plot L now (run L evs (stop_action a)) =
           (None, (run L evs (stop_action a))
                    \<lparr>pending := pending (run L evs (stop_action a)) @ [100]\<rparr>)"
    by (rule update_plot_stopped)
  with n r show ?thesis
    by (simp add: stop_action_frame)
qed

theorem stop_halts_appends_witness:
  "x_data running_app = [1] \<and> is_running running_app
   \<and> \<not> is_running (stop_action running_app)
   \<and> x_data (run ascii_lib [Arrive ''20.0,15.0\<newline>'', Tick 103, Arrive ''30.0,25.0\<newline>'', Tick 104]
        (stop_action running_app)) = [1]
   \<and> y1_data (run ascii_lib [Arrive ''20.0,15.0\<newline>'', Tick 103, Arrive ''30.0,25.0\<newline>'', Tick 104]
        (stop_action running_app)) = [10]
   \<and> y2_data (run ascii_lib [Arrive ''20.0,15.0\<newline>'', Tick 103, Arrive ''30.0,25.0\<newline>'', Tick 104]
        (stop_action running_app)) = [5]
   \<and> length (pending (run ascii_lib [Arrive ''20.0,15.0\<newline>'', Tick 103, Arrive ''30.0,25.0\<newline>'', Tick 104]
        (stop_action running_app))) = 1"
proof -
  have h: "\<forall>e\<in>set [Arrive ''20.0,15.0\<newline>'', Tick 103, Arrive ''30.0,25.0\<newline>'', Tick 104].
             is_tick_or_arrive e"
    by simp
  from stop_halts_appends [OF h, of running_app ascii_lib 0] running_app_fields
  show ?thesis by simp
qed

subsection \<open>C8: the elapsed times are in order when the clock is\<close>

text \<open>
  Claim C8, as the code has it. An elapsed time is \<^verbatim>\<open>time.time()\<close> minus
  \<open>start_time\<close>, and \<^verbatim>\<open>time.time()\<close> is the wall clock. Within one session
  (a Start followed by any events but a Start: ticks, arrivals, Stop, Clear,
  Save), if the clock readings of the successive ticks are non-decreasing,
  then the time series is non-decreasing in arrival order.
\<close>

theorem elapsed_sorted_when_clock_is:
  assumes "\<forall>e\<in>set evs. \<not> is_start e" and "sorted (tick_times evs)"
  shows "sorted (x_data (run L evs (snd (start_action t0 a))))"
  using assms by (intro run_sorted [where st = t0]) (simp_all add: start_action_state)

theorem elapsed_sorted_when_clock_is_witness:
  "sorted (tick_times (two_lines @ [Tick 100.1, Tick 100.2]))
   \<and> x_data (run ascii_lib (two_lines @ [Tick 100.1, Tick 100.2]) (snd (start_action 100 fresh_app)))
       = [1 / 10, 2 / 10]
   \<and> y2_data (run ascii_lib (two_lines @ [Tick 100.1, Tick 100.2]) (snd (start_action 100 fresh_app)))
       = [5, 15]
   \<and> sorted (x_data (run ascii_lib (two_lines @ [Tick 100.1, Tick 100.2])
                (snd (start_action 100 fresh_app))))"
proof -
  have n: "\<forall>e\<in>set (two_lines @ [Tick 100.1, Tick 100.2]). \<not> is_start e"
    and s: "sorted (tick_times (two_lines @ [Tick 100.1, Tick 100.2]))"
    by (simp_all add: two_lines_def)
  have "x_data (run ascii_lib (two_lines @ [Tick 100.1, Tick 100.2]) (snd (start_action 100 fresh_app)))
       = [1 / 10, 2 / 10]"
    "y2_data (run ascii_lib (two_lines @ [Tick 100.1, Tick 100.2]) (snd (start_action 100 fresh_app)))
       = [5, 15]"
    by (simp_all add: two_lines_def eval_defs)
  with s elapsed_sorted_when_clock_is [OF n s, of ascii_lib 100 fresh_app] show ?thesis
    by simp
qed

text \<open>
  The claim as stated has no condition on the clock. When the wall clock is
  set back between two ticks (readings 105 and then 103 in a session started
  at 100), two successive decodes store the elapsed times 5 and 3.
\<close>

theorem clock_set_back_counterexample:
  "x_data (run ascii_lib (two_lines @ [Tick 105, Tick 103]) (snd (start_action 100 fresh_app)))
     = [5, 3]
   \<and> \<not> sorted (x_data (run ascii_lib (two_lines @ [Tick 105, Tick 103])
                    (snd (start_action 100 fresh_app))))"
proof -
  have "x_data (run ascii_lib (two_lines @ [Tick 105, Tick 103]) (snd (start_action 100 fresh_app)))
     = [5, 3]"
    by (simp add: two_lines_def eval_defs)
  then show ?thesis by simp
qed

subsection \<open>C9: the three series have one length\<close>

text \<open>
  Claim C9. The time, flow and volume series have equal lengths after
  \<^verbatim>\<open>__init__\<close> and in every state the event loop reaches from there; Start
  and Clear establish the equality from any state, and a tick and every run
  of events preserve it. In particular a waiting line whose first field is
  accepted by \<^verbatim>\<open>float\<close> and whose second field is not appends to none of the
  three series.
\<close>

theorem series_lengths_agree:
  "same_length (app_init port rows fs)
   \<and> same_length (run L evs (app_init port rows fs))
   \<and> same_length (snd (start_action now a))
   \<and> same_length (clear_action a)
   \<and> (same_length a \<longrightarrow> same_length (snd (update_plot L now a)))
   \<and> (same_length a \<longrightarrow> same_length (run L evs a))
   \<and> (is_running a \<and> serial_port a = Some p \<and> is_open p \<and> 0 < in_waiting p
        \<and> rx_lines p = raw # rest \<and> decode_utf8 L raw = Some t
        \<and> split_sep CHR '','' (strip t) = [f, v]
        \<and> float_of L f = Some y1 \<and> float_of L v = None
      \<longrightarrow> x_data (snd (update_plot L now a)) = x_data a
        \<and> y1_data (snd (update_plot L now a)) = y1_data a
        \<and> y2_data (snd (update_plot L now a)) = y2_data a)"
proof -
  have i: "same_length (app_init port rows fs)"
    by (simp add: same_length_def app_init_def)
  have u: "same_length (snd (update_plot L now a))" if "same_length a"
    using that update_plot_data [of L now a] by (auto simp add: same_length_def)
  have p: "x_data (snd (update_plot L now a)) = x_data a
        \<and> y1_data (snd (update_plot L now a)) = y1_data a
        \<and> y2_data (snd (update_plot L now a)) = y2_data a"
    if h: "is_running a" "serial_port a = Some p" "is_open p" "0 < in_waiting p"
      "rx_lines p = raw # rest" "decode_utf8 L raw = Some t"
      "split_sep CHR '','' (strip t) = [f, v]" "float_of L f = Some y1" "float_of L v = None"
  proof -
    from h(8,9) have "map_float L f v = Inl (ValueError_float v)"
      by (simp add: map_float_def)
    with h have "update_plot L now a =
           (None, a\<lparr>serial_port := Some (p\<lparr>rx_lines := rest\<rparr>),
                     log := log a @ [(''Plot Update Error: '', ValueError_float v)],
                     stdout := stdout a @ [(''Plot Update Error: '', ValueError_float v)],
                     pending := pending a @ [100]\<rparr>)"
      by (intro update_plot_bad_float)
    then show ?thesis by simp
  qed
  from i u p run_same_length [of _ L evs] show ?thesis
    by (simp add: same_length_def start_action_state clear_action_data)
qed

theorem series_lengths_agree_witness:
  "same_length half_line_app
   \<and> x_data half_line_app = [1]
   \<and> float_of ascii_lib ''7.5'' = Some (15 / 2) \<and> float_of ascii_lib ''abc'' = None
   \<and> same_length (snd (update_plot ascii_lib 103 half_line_app))
   \<and> x_data (snd (update_plot ascii_lib 103 half_line_app)) = [1]
   \<and> y1_data (snd (update_plot ascii_lib 103 half_line_app)) = [10]
   \<and> y2_data (snd (update_plot ascii_lib 103 half_line_app)) = [5]
   \<and> same_length (run ascii_lib [Tick 103, Clear, Stop] half_line_app)"
proof -
  note f = half_line_app_fields
  have s: "same_length half_line_app"
    by (simp add: same_length_def f)
  have w: "0 < in_waiting \<lparr>is_open = True, rx_lines = [''7.5,abc\<newline>''], tx = ''A''\<rparr>"
    by (simp add: in_waiting_def)
  from series_lengths_agree [of "Some open_port" "[]" Map.empty ascii_lib "[Tick 103, Clear, Stop]"
      103 half_line_app "\<lparr>is_open = True, rx_lines = [''7.5,abc\<newline>''], tx = ''A''\<rparr>"
      "''7.5,abc\<newline>''" "[]" "''7.5,abc\<newline>''" "''7.5''" "''abc''" "15 / 2"]
    s f w line_75_abc
  show ?thesis by simp
qed

subsection \<open>C10: Start while already Running\<close>

text \<open>
  Claim C10. Start is accepted while the session is Running and the link is
  open: no exception is raised, the state is the old one with the series and
  the two plot lines emptied, \<open>start_time\<close> reset to the clock reading of the
  call and the byte \<^verbatim>\<open>A\<close> written once more, and the session is still
  Running.
\<close>

theorem start_while_running_restarts:
  assumes "is_running a" and "serial_port a = Some p" and "is_open p"
  shows "start_action now a =
           (None, a\<lparr>start_time := Some now,
                     x_data := [], y1_data := [], y2_data := [],
                     line1 := ([], []), line2 := ([], []),
                     serial_port := Some (p\<lparr>tx := tx p @ ''A''\<rparr>)\<rparr>)
       \<and> is_running (snd (start_action now a))"
proof -
  from assms(1) have "a\<lparr>is_running := True\<rparr> = a"
    by simp
  then have "initialize_plot_data now a =
      a\<lparr>start_time := Some now, x_data := [], y1_data := [], y2_data := [],
        line1 := ([], []), line2 := ([], [])\<rparr>"
    by (simp add: initialize_plot_data_def)
  with assms show ?thesis
    by (simp add: start_action_link_open)
qed

theorem start_while_running_restarts_witness:
  "is_running running_app \<and> x_data running_app = [1]
   \<and> fst (start_action 200 running_app) = None
   \<and> is_running (snd (start_action 200 running_app))
   \<and> x_data (snd (start_action 200 running_app)) = []
   \<and> y1_data (snd (start_action 200 running_app)) = []
   \<and> y2_data (snd (start_action 200 running_app)) = []
   \<and> start_time (snd (start_action 200 running_app)) = Some 200
   \<and> serial_port (snd (start_action 200 running_app)) = Some (open_port\<lparr>tx := ''AA''\<rparr>)"
proof -
  have r: "is_running running_app"
    and p: "serial_port running_app = Some (open_port\<lparr>tx := ''A''\<rparr>)"
    and x: "x_data running_app = [1]"
    by (rule running_app_fields)+
  have q: "is_open (open_port\<lparr>tx := ''A''\<rparr>)"
    by (simp add: open_port_def)
  from start_while_running_restarts [OF r p q, of 200] r x show ?thesis
    by (simp add: open_port_def)
qed

end
